theory Spec2Isabelle
  imports Complex_Main
begin

section \<open>Errors raised by the scripts\<close>

text \<open>
  Both scripts signal every failure by a Python exception. Each exception the modelled
  code can raise is a constructor here, and a function that can raise returns
  \<open>error + 'a\<close> with \<open>Inl\<close> for the exception.
\<close>

datatype error =
    UninitializedToken string   \<comment> \<open>\<open>Exception("... uninitialized token %s" % key)\<close> of \<open>generate_script\<close>\<close>
  | KeyError string             \<comment> \<open>a missing dictionary key (\<open>os.environ[...]\<close>, \<open>Template.substitute\<close>, \<open>stacks['B']\<close>)\<close>
  | ValueError                  \<comment> \<open>an invalid placeholder in \<open>Template.substitute\<close>\<close>
  | IndexError                  \<comment> \<open>an index past the end of a sequence\<close>
  | AssertionError              \<comment> \<open>a failed \<open>assert\<close>\<close>
  | SubmissionFailed int string \<comment> \<open>\<open>Exception("%d: %s" % (e, e_msg))\<close> of \<open>submit\<close>\<close>
  | NoTempName                  \<comment> \<open>\<open>mkstemp\<close> found no usable file name\<close>
  | OverflowError               \<comment> \<open>an integer too large to convert to a float\<close>

definition bind_err :: "error + 'a \<Rightarrow> ('a \<Rightarrow> error + 'b) \<Rightarrow> error + 'b" where
  "bind_err r f = (case r of Inl e \<Rightarrow> Inl e | Inr x \<Rightarrow> f x)"

section \<open>The job descriptor: class \<open>BatchJob\<close>\<close>

text \<open>
  An optional attribute holds \<open>None\<close> or a string. Python's truth test, which the
  setters and \<open>submit\<close> apply to the attributes, is false for \<open>None\<close> and for the
  empty string.
\<close>

definition truthy :: "string option \<Rightarrow> bool" where
  "truthy v = (case v of None \<Rightarrow> False | Some s \<Rightarrow> s \<noteq> [])"

record BatchJob =
  name :: "string option"
  walltime :: "string option"
  nodes :: "string option"
  stderr_path :: "string option"
  stdout_path :: "string option"
  workdir :: "string option"
  dependency_list :: "string option"
  mail_options :: "string option"
  mem :: "string option"
  vmem :: "string option"
  attribute_count :: int
  job_script :: string
  job_id :: "string option"

text \<open>
  Every counting setter has the same body: with \<open>old\<close> the value the property reads
  before the assignment and \<open>new\<close> the value being assigned,
  \<^verbatim>\<open>
    if not old and new:        attribute_count += 1
    elif new is None and old:  attribute_count -= 1
  \<close>
\<close>

definition count_after :: "string option \<Rightarrow> string option \<Rightarrow> int \<Rightarrow> int" where
  "count_after old new c =
     (if \<not> truthy old \<and> truthy new then c + 1
      else if new = None \<and> truthy old then c - 1
      else c)"

definition set_name :: "string option \<Rightarrow> BatchJob \<Rightarrow> BatchJob" where
  "set_name v j = j\<lparr>attribute_count := count_after (name j) v (attribute_count j), name := v\<rparr>"

definition set_walltime :: "string option \<Rightarrow> BatchJob \<Rightarrow> BatchJob" where
  "set_walltime v j =
     j\<lparr>attribute_count := count_after (walltime j) v (attribute_count j), walltime := v\<rparr>"

definition set_nodes :: "string option \<Rightarrow> BatchJob \<Rightarrow> BatchJob" where
  "set_nodes v j = j\<lparr>attribute_count := count_after (nodes j) v (attribute_count j), nodes := v\<rparr>"

definition set_stderr_path :: "string option \<Rightarrow> BatchJob \<Rightarrow> BatchJob" where
  "set_stderr_path v j =
     j\<lparr>attribute_count := count_after (stderr_path j) v (attribute_count j), stderr_path := v\<rparr>"

definition set_stdout_path :: "string option \<Rightarrow> BatchJob \<Rightarrow> BatchJob" where
  "set_stdout_path v j =
     j\<lparr>attribute_count := count_after (stdout_path j) v (attribute_count j), stdout_path := v\<rparr>"

definition set_dependency_list :: "string option \<Rightarrow> BatchJob \<Rightarrow> BatchJob" where
  "set_dependency_list v j =
     j\<lparr>attribute_count := count_after (dependency_list j) v (attribute_count j),
       dependency_list := v\<rparr>"

text \<open>The working directory is not counted; \<open>cwd\<close> is what \<open>os.getcwd()\<close> returns.\<close>

definition set_workdir :: "string \<Rightarrow> string option \<Rightarrow> BatchJob \<Rightarrow> BatchJob" where
  "set_workdir cwd v j = (if \<not> truthy v then j\<lparr>workdir := Some cwd\<rparr> else j\<lparr>workdir := v\<rparr>)"

definition set_mail_options :: "string option \<Rightarrow> BatchJob \<Rightarrow> BatchJob" where
  "set_mail_options v j =
     j\<lparr>attribute_count := count_after (mail_options j) v (attribute_count j), mail_options := v\<rparr>"

definition set_mem :: "string option \<Rightarrow> BatchJob \<Rightarrow> BatchJob" where
  "set_mem v j = j\<lparr>attribute_count := count_after (mem j) v (attribute_count j), mem := v\<rparr>"

definition set_vmem :: "string option \<Rightarrow> BatchJob \<Rightarrow> BatchJob" where
  "set_vmem v j = j\<lparr>attribute_count := count_after (vmem j) v (attribute_count j), vmem := v\<rparr>"

text \<open>
  The keyword arguments of the constructor, all defaulting to \<open>None\<close>. The constructor
  clears the private fields and the count, then assigns through the properties in the
  order of the source.
\<close>

record job_args =
  arg_name :: "string option"
  arg_walltime :: "string option"
  arg_nodes :: "string option"
  arg_stderr :: "string option"
  arg_stdout :: "string option"
  arg_workdir :: "string option"
  arg_mail_options :: "string option"
  arg_dependency_list :: "string option"
  arg_mem :: "string option"
  arg_vmem :: "string option"

definition no_args :: job_args where
  "no_args = \<lparr>arg_name = None, arg_walltime = None, arg_nodes = None, arg_stderr = None,
     arg_stdout = None, arg_workdir = None, arg_mail_options = None,
     arg_dependency_list = None, arg_mem = None, arg_vmem = None\<rparr>"

definition blank_job :: BatchJob where
  "blank_job = \<lparr>name = None, walltime = None, nodes = None, stderr_path = None,
     stdout_path = None, workdir = None, dependency_list = None, mail_options = None,
     mem = None, vmem = None, attribute_count = 0, job_script = [], job_id = None\<rparr>"

definition BatchJob_init :: "string \<Rightarrow> string \<Rightarrow> job_args \<Rightarrow> BatchJob" where
  "BatchJob_init cwd script a =
     (set_vmem (arg_vmem a)
     (set_mem (arg_mem a)
     (set_dependency_list (arg_dependency_list a)
     (set_mail_options (arg_mail_options a)
     ((\<lambda>j. j\<lparr>job_id := None\<rparr>)
     (set_workdir cwd (arg_workdir a)
     (set_stderr_path (arg_stderr a)
     (set_stdout_path (arg_stdout a)
     (set_nodes (arg_nodes a)
     (set_walltime (arg_walltime a)
     ((\<lambda>j. j\<lparr>job_script := script\<rparr>)
     (set_name (arg_name a) blank_job))))))))))))"

text \<open>One assignment through a property, and a sequence of them.\<close>

datatype setter =
    SetName "string option"
  | SetWalltime "string option"
  | SetNodes "string option"
  | SetStderrPath "string option"
  | SetStdoutPath "string option"
  | SetDependencyList "string option"
  | SetWorkdir "string option"
  | SetMailOptions "string option"
  | SetMem "string option"
  | SetVmem "string option"

fun apply_setter :: "string \<Rightarrow> setter \<Rightarrow> BatchJob \<Rightarrow> BatchJob" where
  "apply_setter cwd (SetName v) j = set_name v j"
| "apply_setter cwd (SetWalltime v) j = set_walltime v j"
| "apply_setter cwd (SetNodes v) j = set_nodes v j"
| "apply_setter cwd (SetStderrPath v) j = set_stderr_path v j"
| "apply_setter cwd (SetStdoutPath v) j = set_stdout_path v j"
| "apply_setter cwd (SetDependencyList v) j = set_dependency_list v j"
| "apply_setter cwd (SetWorkdir v) j = set_workdir cwd v j"
| "apply_setter cwd (SetMailOptions v) j = set_mail_options v j"
| "apply_setter cwd (SetMem v) j = set_mem v j"
| "apply_setter cwd (SetVmem v) j = set_vmem v j"

definition apply_setters :: "string \<Rightarrow> setter list \<Rightarrow> BatchJob \<Rightarrow> BatchJob" where
  "apply_setters cwd ops j = fold (apply_setter cwd) ops j"

text \<open>The optional attributes that currently hold a non-empty value.\<close>

definition set_attributes :: "BatchJob \<Rightarrow> string option list" where
  "set_attributes j = filter truthy [name j, walltime j, nodes j, stdout_path j, stderr_path j,
     dependency_list j, mail_options j, mem j, vmem j]"

definition count_set :: "BatchJob \<Rightarrow> int" where
  "count_set j = int (length (set_attributes j))"

section \<open>The outside world\<close>

text \<open>
  What the scripts read and change outside their own objects: the process environment,
  the current directory and host name, the file system as far as temporary files go, the
  directory listings, the resource manager behind the \<open>pbs\<close> module, and what is printed.
\<close>

datatype attr_id = ATTR_v | ATTR_N | ATTR_l | ATTR_o | ATTR_e | ATTR_depend | ATTR_m

record attropl =
  attr_name :: "attr_id option"
  attr_resource :: "string option"
  attr_value :: "string option"

datatype pbs_call =
    PbsConnect nat
  | PbsSubmit nat "attropl list" string
  | PbsDisconnect nat

record world =
  environ :: "string \<rightharpoonup> string"
  cwd :: string
  fqdn :: string
  files :: "string \<rightharpoonup> string"
  tmp_names :: "string list"
  listdir :: "string \<Rightarrow> string list"
  abspath :: "string \<Rightarrow> string"
  pbs_reply :: "nat \<Rightarrow> string option \<times> int \<times> string"
  pbs_errno :: "int \<times> string"
  pbs_calls :: "pbs_call list"
  printed :: "string list"

text \<open>
  The resource manager is opaque: \<open>pbs_reply n\<close> is what it answers to the \<open>n\<close>-th
  \<open>pbs_submit\<close> of the run, a job identifier together with the error code and message
  that \<open>pbs.error()\<close> reports afterwards. \<open>pbs_calls\<close> records the calls in order.
  A connection handle is the number of connections opened before it.
\<close>

fun is_connect :: "pbs_call \<Rightarrow> bool" where
  "is_connect (PbsConnect _) = True"
| "is_connect _ = False"

fun is_submit :: "pbs_call \<Rightarrow> bool" where
  "is_submit (PbsSubmit _ _ _) = True"
| "is_submit _ = False"

fun is_disconnect :: "pbs_call \<Rightarrow> bool" where
  "is_disconnect (PbsDisconnect _) = True"
| "is_disconnect _ = False"

definition pbs_connect :: "world \<Rightarrow> nat \<times> world" where
  "pbs_connect w =
     (let c = length (filter is_connect (pbs_calls w))
      in (c, w\<lparr>pbs_calls := pbs_calls w @ [PbsConnect c]\<rparr>))"

definition pbs_submit :: "nat \<Rightarrow> attropl list \<Rightarrow> string \<Rightarrow> world \<Rightarrow> string option \<times> world" where
  "pbs_submit c attrs script w =
     (let n = length (filter is_submit (pbs_calls w));
          (jid, e, msg) = pbs_reply w n
      in (jid, w\<lparr>pbs_errno := (e, msg), pbs_calls := pbs_calls w @ [PbsSubmit c attrs script]\<rparr>))"

definition pbs_disconnect :: "nat \<Rightarrow> world \<Rightarrow> world" where
  "pbs_disconnect c w = w\<lparr>pbs_calls := pbs_calls w @ [PbsDisconnect c]\<rparr>"

definition pbs_error :: "world \<Rightarrow> int \<times> string" where
  "pbs_error w = pbs_errno w"

text \<open>\<open>os.environ[k]\<close> raises \<open>KeyError\<close> for a variable that is not in the environment.\<close>

definition environ_get :: "world \<Rightarrow> string \<Rightarrow> error + string" where
  "environ_get w k = (case environ w k of None \<Rightarrow> Inl (KeyError k) | Some v \<Rightarrow> Inr v)"

text \<open>
  \<open>mkstemp(suffix=".sh")\<close> tries candidate names until one does not exist and creates
  that file, empty. \<open>tmp_names\<close> is the supply of candidates.
\<close>

definition mkstemp :: "world \<Rightarrow> (error + string) \<times> world" where
  "mkstemp w =
     (case dropWhile (\<lambda>n. files w n \<noteq> None) (tmp_names w) of
        [] \<Rightarrow> (Inl NoTempName, w\<lparr>tmp_names := []\<rparr>)
      | n # rest \<Rightarrow> (Inr n, w\<lparr>files := (files w)(n \<mapsto> []), tmp_names := rest\<rparr>))"

definition os_write :: "string \<Rightarrow> string \<Rightarrow> world \<Rightarrow> world" where
  "os_write path text w =
     w\<lparr>files := (files w)(path \<mapsto> (case files w path of None \<Rightarrow> text | Some old \<Rightarrow> old @ text))\<rparr>"

definition os_remove :: "string \<Rightarrow> world \<Rightarrow> world" where
  "os_remove path w = w\<lparr>files := (files w)(path := None)\<rparr>"

definition print :: "string \<Rightarrow> world \<Rightarrow> world" where
  "print line w = w\<lparr>printed := printed w @ [line]\<rparr>"

section \<open>Submission: \<open>BatchJob.generate_env\<close> and \<open>BatchJob.submit\<close>\<close>

text \<open>\<open>"%s" % v\<close> for a value that is a string or \<open>None\<close>.\<close>

definition str_opt :: "string option \<Rightarrow> string" where
  "str_opt v = (case v of None \<Rightarrow> ''None'' | Some s \<Rightarrow> s)"

definition generate_env :: "BatchJob \<Rightarrow> world \<Rightarrow> error + string" where
  "generate_env j w =
     (let env = ''PBS_O_WORKDIR='' @ str_opt (workdir j);
          env = env @ '',PBS_O_HOST='' @ fqdn w
      in bind_err (environ_get w ''PATH'') (\<lambda>p.
         let env = (if p \<noteq> [] then env @ '',PBS_O_PATH='' @ p else env)
         in bind_err (environ_get w ''HOME'') (\<lambda>h.
            let env = (if h \<noteq> [] then env @ '',PBS_O_HOME='' @ h else env)
            in bind_err (environ_get w ''LOGNAME'') (\<lambda>l.
               let env = (if l \<noteq> [] then env @ '',PBS_O_LOGNAME='' @ l else env)
               in Inr env))))"

text \<open>
  \<open>pbs.new_attropl(n)\<close> allocates \<open>n\<close> blank entries. Assigning to the fields of
  \<open>attropl[idx]\<close> raises \<open>IndexError\<close> when \<open>idx\<close> is not below the capacity. The
  state of the filling code is the array and the write index \<open>attropl_idx\<close>.
\<close>

definition blank_attropl :: attropl where
  "blank_attropl = \<lparr>attr_name = None, attr_resource = None, attr_value = None\<rparr>"

definition new_attropl :: "int \<Rightarrow> attropl list" where
  "new_attropl n = replicate (nat n) blank_attropl"

definition write_entry :: "attr_id \<Rightarrow> string option \<Rightarrow> string \<Rightarrow> attropl \<Rightarrow> attropl" where
  "write_entry nm res v a =
     a\<lparr>attr_name := Some nm,
       attr_resource := (case res of None \<Rightarrow> attr_resource a | Some r \<Rightarrow> Some r),
       attr_value := Some v\<rparr>"

definition add_attr ::
  "attr_id \<times> string option \<times> string \<Rightarrow> attropl list \<times> nat \<Rightarrow> error + attropl list \<times> nat" where
  "add_attr t st =
     (case (t, st) of ((nm, res, v), (xs, idx)) \<Rightarrow>
        if idx < length xs then Inr (xs[idx := write_entry nm res v (xs ! idx)], idx + 1)
        else Inl IndexError)"

text \<open>One \<open>if self.attr:\<close> block of \<open>submit\<close>.\<close>

definition add_if ::
  "string option \<times> attr_id \<times> string option \<Rightarrow> attropl list \<times> nat \<Rightarrow> error + attropl list \<times> nat" where
  "add_if t st =
     (case t of (v, nm, res) \<Rightarrow> if truthy v then add_attr (nm, res, the v) st else Inr st)"

fun add_all ::
  "(string option \<times> attr_id \<times> string option) list \<Rightarrow> attropl list \<times> nat
     \<Rightarrow> error + attropl list \<times> nat" where
  "add_all [] st = Inr st"
| "add_all (t # ts) st = bind_err (add_if t st) (add_all ts)"

text \<open>
  The nine blocks of \<open>submit\<close>, in the order of the source: the attribute tested, the
  attribute name written and the resource written (if any). The fifth block writes
  \<open>stderr_path\<close> under \<open>ATTR_o\<close>, as the source does.
\<close>

definition optional_attrs :: "BatchJob \<Rightarrow> (string option \<times> attr_id \<times> string option) list" where
  "optional_attrs j =
     [(name j, ATTR_N, None),
      (walltime j, ATTR_l, Some ''walltime''),
      (nodes j, ATTR_l, Some ''nodes''),
      (stdout_path j, ATTR_o, None),
      (stderr_path j, ATTR_o, None),
      (dependency_list j, ATTR_depend, None),
      (mail_options j, ATTR_m, None),
      (mem j, ATTR_l, Some ''mem''),
      (vmem j, ATTR_l, Some ''vmem'')]"

text \<open>
  The first lines of \<open>submit\<close>: allocate, then fill. The name of entry 0 is assigned
  before \<open>generate_env\<close> is called, so a capacity of 0 raises before a missing
  environment variable does.
\<close>

definition build_attropl :: "BatchJob \<Rightarrow> world \<Rightarrow> error + attropl list \<times> nat" where
  "build_attropl j w =
     (let attropl = new_attropl (attribute_count j + 1);
          attropl_idx = 0
      in if \<not> attropl_idx < length attropl then Inl IndexError
         else bind_err (generate_env j w) (\<lambda>env.
              bind_err (add_attr (ATTR_v, None, env) (attropl, attropl_idx))
                (add_all (optional_attrs j))))"

text \<open>
  \<open>submit\<close> returns its outcome together with the job (whose \<open>job_id\<close> it assigns) and
  the world, also when it raises.
\<close>

definition submit :: "BatchJob \<Rightarrow> world \<Rightarrow> (error + string option) \<times> BatchJob \<times> world" where
  "submit j w =
     (case build_attropl j w of
        Inl e \<Rightarrow> (Inl e, j, w)
      | Inr (attropl, attropl_idx) \<Rightarrow>
          let (connection, w1) = pbs_connect w;
              (jid, w2) = pbs_submit connection attropl (job_script j) w1;
              j' = j\<lparr>job_id := jid\<rparr>;
              w3 = pbs_disconnect connection w2;
              (e, e_msg) = pbs_error w3
          in if e \<noteq> 0 then (Inl (SubmissionFailed e e_msg), j', w3)
             else (Inr (job_id j'), j', w3))"

section \<open>Strings and paths of the Python library\<close>

definition nl :: string where
  "nl = [CHR 0x0A]"

definition dquote :: string where
  "dquote = [CHR 0x22]"

definition tab :: string where
  "tab = [CHR 0x09]"

text \<open>\<open>"%d" % i\<close> and \<open>"{0}".format(i)\<close> for an integer.\<close>

definition digit_char :: "nat \<Rightarrow> char" where
  "digit_char d = (''0123456789'' ! d)"

fun digits :: "nat \<Rightarrow> string" where
  "digits n = (if n < 10 then [digit_char n] else digits (n div 10) @ [digit_char (n mod 10)])"

declare digits.simps [simp del]

definition str_int :: "int \<Rightarrow> string" where
  "str_int i = (if i < 0 then CHR ''-'' # digits (nat (- i)) else digits (nat i))"

text \<open>\<open>s.rfind(c)\<close>: the last index of \<open>c\<close> in \<open>s\<close>, or \<open>-1\<close>.\<close>

primrec rfind :: "char \<Rightarrow> string \<Rightarrow> int" where
  "rfind c [] = - 1"
| "rfind c (x # xs) =
     (let r = rfind c xs in if 0 \<le> r then r + 1 else if x = c then 0 else - 1)"

text \<open>
  \<open>os.path.splitext\<close> (posixpath): split at the last dot after the last slash, unless
  only dots lie between that slash and that dot.
\<close>

definition splitext :: "string \<Rightarrow> string \<times> string" where
  "splitext p =
     (let sepIndex = rfind CHR ''/'' p;
          dotIndex = rfind CHR ''.'' p
      in if dotIndex > sepIndex \<and>
            list_ex (\<lambda>c. c \<noteq> CHR ''.'') (take (nat (dotIndex - (sepIndex + 1))) (drop (nat (sepIndex + 1)) p))
         then (take (nat dotIndex) p, drop (nat dotIndex) p)
         else (p, []))"

definition basename :: "string \<Rightarrow> string" where
  "basename p = drop (nat (rfind CHR ''/'' p + 1)) p"

text \<open>\<open>os.path.join(a, b)\<close> (posixpath) for two components.\<close>

definition path_join :: "string \<Rightarrow> string \<Rightarrow> string" where
  "path_join a b =
     (if b \<noteq> [] \<and> hd b = CHR ''/'' then b
      else if a = [] \<or> last a = CHR ''/'' then a @ b
      else a @ ''/'' @ b)"

text \<open>\<open>s.upper()\<close> on bytes: the letters a to z are raised, all else is kept.\<close>

definition upper_char :: "char \<Rightarrow> char" where
  "upper_char c =
     (case map_of (zip ''abcdefghijklmnopqrstuvwxyz'' ''ABCDEFGHIJKLMNOPQRSTUVWXYZ'') c of
        None \<Rightarrow> c | Some u \<Rightarrow> u)"

definition upper :: "string \<Rightarrow> string" where
  "upper s = map upper_char s"

text \<open>\<open>s.split(sep)\<close> for a one-character separator: never the empty list.\<close>

primrec split_on :: "char \<Rightarrow> string \<Rightarrow> string list" where
  "split_on sep [] = [[]]"
| "split_on sep (c # cs) =
     (if c = sep then [] # split_on sep cs
      else (case split_on sep cs of [] \<Rightarrow> [[c]] | w # ws \<Rightarrow> (c # w) # ws))"

text \<open>\<open>xs[i]\<close> for a non-negative index.\<close>

definition index :: "'a list \<Rightarrow> nat \<Rightarrow> error + 'a" where
  "index xs i = (if i < length xs then Inr (xs ! i) else Inl IndexError)"

section \<open>\<open>string.Template.substitute\<close>\<close>

text \<open>
  The template pattern of Python 2 is, with case ignored,
  \<^verbatim>\<open>\$(?:(?P<escaped>\$)|(?P<named>[_a-z][_a-z0-9]*)|{(?P<braced>[_a-z][_a-z0-9]*)}|(?P<invalid>))\<close>.
  \<open>tokenize\<close> cuts a template into the matches of that pattern, left to right, and the
  characters between them.
\<close>

definition is_id_start :: "char \<Rightarrow> bool" where
  "is_id_start c = (c \<in> set ''_abcdefghijklmnopqrstuvwxyzABCDEFGHIJKLMNOPQRSTUVWXYZ'')"

definition is_id_char :: "char \<Rightarrow> bool" where
  "is_id_char c = (is_id_start c \<or> c \<in> set ''0123456789'')"

datatype piece = Lit char | Escaped | Named string | Braced string | Invalid

function tokenize :: "string \<Rightarrow> piece list" where
  "tokenize [] = []"
| "tokenize (c # cs) =
     (if c \<noteq> CHR ''$'' then Lit c # tokenize cs
      else if cs \<noteq> [] \<and> hd cs = CHR ''$'' then Escaped # tokenize (tl cs)
      else if cs \<noteq> [] \<and> is_id_start (hd cs)
        then Named (takeWhile is_id_char cs) # tokenize (dropWhile is_id_char cs)
      else if cs \<noteq> [] \<and> hd cs = CHR ''{'' \<and> tl cs \<noteq> [] \<and> is_id_start (hd (tl cs))
              \<and> dropWhile is_id_char (tl cs) \<noteq> [] \<and> hd (dropWhile is_id_char (tl cs)) = CHR ''}''
        then Braced (takeWhile is_id_char (tl cs)) # tokenize (tl (dropWhile is_id_char (tl cs)))
      else Invalid # tokenize cs)"
  by pat_completeness auto
termination
proof (relation "measure length")
  fix c :: char and cs :: string
  have d: "length (dropWhile is_id_char xs) \<le> length xs" for xs
    by (rule length_dropWhile_le)
  show "(dropWhile is_id_char cs, c # cs) \<in> measure length"
    using d [of cs] by simp
  show "(tl (dropWhile is_id_char (tl cs)), c # cs) \<in> measure length"
    using d [of "tl cs"] by simp
qed auto

declare tokenize.simps [simp del]

text \<open>
  A token value: \<open>None\<close>, a string, or an integer (the display number). \<open>convert\<close> is
  the callback \<open>substitute\<close> applies to each match: a placeholder is looked up in the
  mapping (\<open>KeyError\<close> when absent) and formatted with \<open>%s\<close>, \<open>$$\<close> gives \<open>$\<close>, any
  other \<open>$\<close> raises \<open>ValueError\<close>.
\<close>

datatype tokval = TNone | TStr string | TInt int

definition str_tok :: "tokval \<Rightarrow> string" where
  "str_tok v = (case v of TNone \<Rightarrow> ''None'' | TStr s \<Rightarrow> s | TInt i \<Rightarrow> str_int i)"

fun convert :: "(string \<rightharpoonup> tokval) \<Rightarrow> piece \<Rightarrow> error + string" where
  "convert m (Lit c) = Inr [c]"
| "convert m Escaped = Inr ''$''"
| "convert m (Named n) = (case m n of None \<Rightarrow> Inl (KeyError n) | Some v \<Rightarrow> Inr (str_tok v))"
| "convert m (Braced n) = (case m n of None \<Rightarrow> Inl (KeyError n) | Some v \<Rightarrow> Inr (str_tok v))"
| "convert m Invalid = Inl ValueError"

fun convert_all :: "(string \<rightharpoonup> tokval) \<Rightarrow> piece list \<Rightarrow> error + string" where
  "convert_all m [] = Inr []"
| "convert_all m (p # ps) =
     bind_err (convert m p) (\<lambda>s. bind_err (convert_all m ps) (\<lambda>r. Inr (s @ r)))"

definition substitute :: "string \<Rightarrow> (string \<rightharpoonup> tokval) \<Rightarrow> error + string" where
  "substitute template m = convert_all m (tokenize template)"

section \<open>The script generators: \<open>SubmitScript\<close> and \<open>BatchScript\<close>\<close>

text \<open>
  \<open>_tokens\<close> is a dictionary, modelled as an association list with one entry per key;
  the order of the list stands for the order in which \<open>iteritems()\<close> yields the entries.
\<close>

type_synonym tokens = "(string \<times> tokval) list"

primrec dict_set :: "'k \<Rightarrow> 'v \<Rightarrow> ('k \<times> 'v) list \<Rightarrow> ('k \<times> 'v) list" where
  "dict_set k v [] = [(k, v)]"
| "dict_set k v (e # es) = (if fst e = k then (k, v) # es else e # dict_set k v es)"

text \<open>\<open>generate_script\<close>, the same in both classes, over the class's template.\<close>

fun check_tokens :: "tokens \<Rightarrow> error + unit" where
  "check_tokens [] = Inr ()"
| "check_tokens ((key, val) # rest) =
     (if val = TNone then Inl (UninitializedToken key) else check_tokens rest)"

definition generate_script :: "string \<Rightarrow> tokens \<Rightarrow> error + string" where
  "generate_script script_template toks =
     bind_err (check_tokens toks) (\<lambda>_. substitute script_template (map_of toks))"

text \<open>
  The template of \<open>batch_registration.SubmitScript\<close>, after \<open>textwrap.dedent\<close> has
  removed the common indentation and emptied the lines of blanks.
\<close>

definition SubmitScript_template :: string where
  "SubmitScript_template = concat
     [''#!/bin/bash'', nl,
      nl,
      ''module load Python'', nl,
      ''module load java'', nl,
      nl,
      ''cd $$PBS_O_WORKDIR'', nl,
      nl,
      ''$FIJI_HOME_DIR/ImageJ-linux64  $HEAP -batch $ALIGN_MACRO '',
        dquote, ''$STACK_IN:$STACK_OUT'', dquote, nl,
      nl]"

definition batch_FIJI_HOME :: string where
  "batch_FIJI_HOME = ''/opt/compsci/Fiji/Fiji.app''"

definition batch_MACRO :: string where
  "batch_MACRO = ''/opt/compsci/Fiji/macros/kidneyalign.ijm''"

text \<open>
  \<open>SubmitScript(input, output=None, heap=None)\<close>: the token dictionary it builds.
  \<open>if output:\<close> and \<open>if heap:\<close> are truth tests.
\<close>

definition SubmitScript_init :: "string \<Rightarrow> string option \<Rightarrow> string option \<Rightarrow> tokens" where
  "SubmitScript_init input output heap =
     (let t = [];
          t = dict_set ''STACK_IN'' (TStr input) t;
          t = (if truthy output then dict_set ''STACK_OUT'' (TStr (the output)) t
               else (let (filename, extension) = splitext input
                     in dict_set ''STACK_OUT'' (TStr (basename filename @ ''-aligned'' @ extension)) t));
          t = dict_set ''FIJI_HOME_DIR'' (TStr batch_FIJI_HOME) t;
          t = dict_set ''ALIGN_MACRO'' (TStr batch_MACRO) t;
          t = (if truthy heap then dict_set ''HEAP'' (TStr (''--heap '' @ the heap)) t
               else dict_set ''HEAP'' (TStr []) t)
      in t)"

text \<open>The template of \<open>multi_registration.BatchScript\<close>, dedented likewise.\<close>

definition BatchScript_template :: string where
  "BatchScript_template = concat
     [''#!/bin/bash'', nl,
      nl,
      ''module load java'', nl,
      nl,
      ''cd $$PBS_O_WORKDIR'', nl,
      nl,
      ''#start Xvfb so that our transformation file gets saved correctly'', nl,
      ''#there seems to be a bug in the MultiStackReg plugin that prevents '', nl,
      ''#it from saving the transformation file unless an X server is running'', nl,
      nl,
      ''export DISPLAY=:$DNUM '', nl,
      ''Xvfb $$DISPLAY -auth /dev/null > /dev/null 2>&1 &'', nl,
      nl,
      ''$FIJI_HOME_DIR/ImageJ-linux64  $HEAP -batch $ALIGN_MACRO '',
        dquote, ''$BACKGROUND_IN:$BACKGROUND_OUT:$GLOMERULI_IN:$GLOMERULI_OUT:$TRANS_OUT:$TRANS_TYPE'',
        dquote, nl,
      nl]"

definition multi_FIJI_HOME :: string where
  "multi_FIJI_HOME = ''/opt/compsci/Fiji/Fiji.app''"

definition multi_MACRO :: string where
  "multi_MACRO = ''/opt/compsci/Fiji/macros/multi_channel.ijm''"

text \<open>
  \<open>BatchScript(background_in, glomeruli_in, background_out=None, glomeruli_out=None,
  transformations_out=None, transformation_type="Rigid Body", heap=None, display=1)\<close>.
  Both output tokens are chosen by the test \<open>if background_out:\<close>, as in the source.
\<close>

record BatchScript_args =
  background_in :: string
  glomeruli_in :: string
  background_out :: "string option"
  glomeruli_out :: "string option"
  transformations_out :: "string option"
  transformation_type :: string
  heap :: "string option"
  display :: int

definition tok_opt :: "string option \<Rightarrow> tokval" where
  "tok_opt v = (case v of None \<Rightarrow> TNone | Some s \<Rightarrow> TStr s)"

definition BatchScript_init :: "BatchScript_args \<Rightarrow> tokens" where
  "BatchScript_init a =
     (let t = [];
          t = dict_set ''BACKGROUND_IN'' (TStr (background_in a)) t;
          t = dict_set ''GLOMERULI_IN'' (TStr (glomeruli_in a)) t;
          t = dict_set ''DNUM'' (TInt (display a)) t;
          t = (if truthy (background_out a)
               then dict_set ''BACKGROUND_OUT'' (TStr (the (background_out a))) t
               else (let (filename, extension) = splitext (background_in a)
                     in dict_set ''BACKGROUND_OUT''
                          (TStr (basename filename @ ''_aligned'' @ extension)) t));
          t = (if truthy (background_out a)
               then dict_set ''GLOMERULI_OUT'' (tok_opt (glomeruli_out a)) t
               else (let (filename, extension) = splitext (glomeruli_in a)
                     in dict_set ''GLOMERULI_OUT''
                          (TStr (basename filename @ ''_aligned'' @ extension)) t));
          t = (if truthy (transformations_out a)
               then dict_set ''TRANS_OUT'' (TStr (the (transformations_out a))) t
               else dict_set ''TRANS_OUT'' (TStr ''transformations.txt'') t);
          t = dict_set ''TRANS_TYPE'' (TStr (transformation_type a)) t;
          t = dict_set ''FIJI_HOME_DIR'' (TStr multi_FIJI_HOME) t;
          t = dict_set ''ALIGN_MACRO'' (TStr multi_MACRO) t;
          t = (if truthy (heap a) then dict_set ''HEAP'' (TStr (''--heap '' @ the (heap a))) t
               else dict_set ''HEAP'' (TStr []) t)
      in t)"

section \<open>The heap size: \<open>int(mem * 1024 * .93)\<close>\<close>

text \<open>
  \<open>mem * 1024\<close> is an exact integer product. Multiplying it by the float \<open>.93\<close>
  converts it to a binary64 float and rounds the product to binary64; \<open>int\<close> then
  truncates towards zero. A float is modelled as the rational it denotes, and
  \<open>round_double\<close> is rounding to the nearest binary64 number, ties to even, for
  magnitudes in the normal range (which zero and every value of 1 or more below the
  overflow threshold are).
\<close>

fun bitlen :: "nat \<Rightarrow> nat" where
  "bitlen n = (if n = 0 then 0 else Suc (bitlen (n div 2)))"

declare bitlen.simps [simp del]

definition binade :: "rat \<Rightarrow> int" where
  "binade q =
     (if 1 \<le> q then int (bitlen (nat \<lfloor>q\<rfloor>)) - 1
      else - int (bitlen (nat (\<lceil>1 / q\<rceil> - 1))))"

definition round_half_even :: "rat \<Rightarrow> int" where
  "round_half_even q =
     (let f = \<lfloor>q\<rfloor>; d = q - of_int f
      in if d < 1 / 2 then f else if 1 / 2 < d then f + 1 else if even f then f else f + 1)"

definition round_double :: "rat \<Rightarrow> rat" where
  "round_double q =
     (if q = 0 then 0
      else (let a = \<bar>q\<bar>;
                u = power_int 2 (binade a - 52);
                m = round_half_even (a / u)
            in sgn q * of_int m * u))"

definition float_of_int :: "int \<Rightarrow> error + rat" where
  "float_of_int n =
     (let x = round_double (of_int n)
      in if 2 ^ 1024 \<le> \<bar>x\<bar> then Inl OverflowError else Inr x)"

definition float_mul :: "rat \<Rightarrow> rat \<Rightarrow> rat" where
  "float_mul x y = round_double (x * y)"

definition int_of_float :: "rat \<Rightarrow> int" where
  "int_of_float x = (if 0 \<le> x then \<lfloor>x\<rfloor> else \<lceil>x\<rceil>)"

text \<open>The float literal \<open>.93\<close> is the binary64 number nearest to 93/100.\<close>

definition float_093 :: rat where
  "float_093 = round_double (93 / 100)"

definition heap_size :: "int \<Rightarrow> error + int" where
  "heap_size mem_gb =
     bind_err (float_of_int (mem_gb * 1024)) (\<lambda>x. Inr (int_of_float (float_mul x float_093)))"

section \<open>\<open>batch_registration.main\<close>: one job per image stack\<close>

text \<open>
  The part of \<open>main\<close> that follows option parsing, from \<open>stack_dir = remainder[0]\<close> on.
  \<open>walltime\<close>, \<open>mem\<close> and \<open>vmem\<close> are the values the options left: a string and two
  integers. A function of the orchestration returns its outcome together with the world
  it leaves, also when it raises; an exception leaves the loop and \<open>main\<close>.
\<close>

definition is_tiff :: "string \<Rightarrow> bool" where
  "is_tiff extension = (upper extension = ''.TIFF'' \<or> upper extension = ''.TIF'')"

text \<open>The body of the \<open>for file in os.listdir(stack_dir)\<close> loop.\<close>

definition batch_process_file ::
  "string \<Rightarrow> string \<Rightarrow> string \<Rightarrow> string \<Rightarrow> string \<Rightarrow> string \<Rightarrow> world \<Rightarrow> (error + unit) \<times> world" where
  "batch_process_file stack_dir heap_s walltime_s mem_s vmem_s file w =
     (let (filename, extension) = splitext file;
          input_file = path_join stack_dir file
      in if is_tiff extension then
           (let w1 = print (''Creating job to process '' @ input_file) w;
                batch_script = SubmitScript_init input_file None (Some heap_s)
            in case mkstemp w1 of
                 (Inl e, w2) \<Rightarrow> (Inl e, w2)
               | (Inr tmp_filename, w2) \<Rightarrow>
                   (case generate_script SubmitScript_template batch_script of
                      Inl e \<Rightarrow> (Inl e, w2)
                    | Inr text \<Rightarrow>
                        (let w3 = os_write tmp_filename text w2;
                             batch_job = BatchJob_init (cwd w3) tmp_filename
                               (no_args\<lparr>arg_walltime := Some walltime_s,
                                  arg_name := Some (''align_'' @ file),
                                  arg_nodes := Some ''1:ppn=8'',
                                  arg_mail_options := Some ''ae'',
                                  arg_mem := Some mem_s,
                                  arg_vmem := Some vmem_s\<rparr>)
                         in case submit batch_job w3 of
                              (Inl e, _, w4) \<Rightarrow> (Inl e, w4)
                            | (Inr id', _, w4) \<Rightarrow>
                                (let w5 = print (tab @ ''Submitted with batch id '' @ str_opt id') w4;
                                     w6 = os_remove tmp_filename w5
                                 in (Inr (), w6)))))
         else (Inr (), w))"

fun batch_loop ::
  "string \<Rightarrow> string \<Rightarrow> string \<Rightarrow> string \<Rightarrow> string \<Rightarrow> string list \<Rightarrow> world \<Rightarrow> (error + unit) \<times> world" where
  "batch_loop stack_dir heap_s walltime_s mem_s vmem_s [] w = (Inr (), w)"
| "batch_loop stack_dir heap_s walltime_s mem_s vmem_s (file # rest) w =
     (case batch_process_file stack_dir heap_s walltime_s mem_s vmem_s file w of
        (Inl e, w') \<Rightarrow> (Inl e, w')
      | (Inr _, w') \<Rightarrow> batch_loop stack_dir heap_s walltime_s mem_s vmem_s rest w')"

definition batch_main :: "string \<Rightarrow> int \<Rightarrow> int \<Rightarrow> string \<Rightarrow> world \<Rightarrow> (error + unit) \<times> world" where
  "batch_main walltime_s mem_gb vmem_gb stack_dir w =
     (case heap_size mem_gb of
        Inl e \<Rightarrow> (Inl e, w)
      | Inr h \<Rightarrow>
          (let heap_s = str_int h;
               w1 = print (''setting heap to '' @ heap_s) w;
               mem_s = str_int mem_gb @ ''gb'';
               vmem_s = str_int vmem_gb @ ''gb''
           in batch_loop stack_dir heap_s walltime_s mem_s vmem_s (listdir w1 stack_dir) w1))"

section \<open>\<open>multi_registration.main\<close>: one job per pair of stacks\<close>

text \<open>
  \<open>pairs\<close> maps an identifier to a dictionary from channel (\<open>'B'\<close> or \<open>'G'\<close>) to file
  name. Both are association lists, in insertion order.
\<close>

type_synonym stacks = "(string \<times> string) list"

type_synonym pairs = "(string \<times> stacks) list"

definition has_key :: "('k \<times> 'v) list \<Rightarrow> 'k \<Rightarrow> bool" where
  "has_key d k = (map_of d k \<noteq> None)"

definition dict_get :: "(string \<times> 'v) list \<Rightarrow> string \<Rightarrow> error + 'v" where
  "dict_get d k = (case map_of d k of None \<Rightarrow> Inl (KeyError k) | Some v \<Rightarrow> Inr v)"

text \<open>The first loop of \<open>main\<close>: group the image stacks of the listing by identifier.\<close>

fun group_files :: "string list \<Rightarrow> pairs \<Rightarrow> error + pairs" where
  "group_files [] pairs = Inr pairs"
| "group_files (file # rest) pairs =
     (let (filename, extension) = splitext file
      in if is_tiff extension then
           (let parts = split_on CHR ''_'' filename
            in bind_err (index parts 0) (\<lambda>id'.
               bind_err (index parts 1) (\<lambda>channel.
                 if \<not> (channel \<in> set [''B'', ''G'']) then Inl AssertionError
                 else (let pairs1 = (if \<not> has_key pairs id' then dict_set id' [] pairs else pairs)
                       in bind_err (dict_get pairs1 id') (\<lambda>stacks.
                            if \<not> length stacks < 2 then Inl AssertionError
                            else (let stacks' = (if channel = ''B'' then dict_set ''B'' file stacks
                                                  else dict_set ''G'' file stacks)
                                  in group_files rest (dict_set id' stacks' pairs1)))))))
         else group_files rest pairs)"

text \<open>The \<open>else\<close> branch of the second loop: render, submit, clean up.\<close>

definition multi_process_pair ::
  "string \<Rightarrow> string \<Rightarrow> string \<Rightarrow> string \<Rightarrow> string \<Rightarrow> string \<Rightarrow> stacks \<Rightarrow> int \<Rightarrow> world
     \<Rightarrow> (error + unit) \<times> world" where
  "multi_process_pair trans' heap_s walltime_s mem_s vmem_s id' stacks display_number w =
     (case bind_err (dict_get stacks ''B'') (\<lambda>b. bind_err (dict_get stacks ''G'') (\<lambda>g. Inr (b, g))) of
        Inl e \<Rightarrow> (Inl e, w)
      | Inr (b, g) \<Rightarrow>
          (let w1 = print (''Creating job to process '' @ b @ '','' @ g) w;
               trans_out = id' @ ''_transformations.txt'';
               batch_script = BatchScript_init
                 \<lparr>background_in = b, glomeruli_in = g, background_out = None,
                  glomeruli_out = None, transformations_out = Some trans_out,
                  transformation_type = trans', heap = Some heap_s, display = display_number\<rparr>
           in case mkstemp w1 of
                (Inl e, w2) \<Rightarrow> (Inl e, w2)
              | (Inr tmp_filename, w2) \<Rightarrow>
                  (case generate_script BatchScript_template batch_script of
                     Inl e \<Rightarrow> (Inl e, w2)
                   | Inr text \<Rightarrow>
                       (let w3 = os_write tmp_filename text w2;
                            batch_job = BatchJob_init (cwd w3) tmp_filename
                              (no_args\<lparr>arg_walltime := Some walltime_s,
                                 arg_name := Some (''align_'' @ id'),
                                 arg_nodes := Some ''1:ppn=8'',
                                 arg_mail_options := Some ''ae'',
                                 arg_mem := Some mem_s,
                                 arg_vmem := Some vmem_s\<rparr>)
                        in case submit batch_job w3 of
                             (Inl e, _, w4) \<Rightarrow> (Inl e, w4)
                           | (Inr batch_id, _, w4) \<Rightarrow>
                               (let w5 = print (tab @ ''Submitted with batch id '' @ str_opt batch_id) w4;
                                    w6 = os_remove tmp_filename w5
                                in (Inr (), w6))))))"

text \<open>
  The second loop, \<open>for id,stacks in pairs.iteritems()\<close>, with \<open>display_number\<close>
  threaded through. A group of one file is reported and skipped.
\<close>

fun submit_pairs ::
  "string \<Rightarrow> string \<Rightarrow> string \<Rightarrow> string \<Rightarrow> string \<Rightarrow> pairs \<Rightarrow> int \<Rightarrow> world
     \<Rightarrow> (error + unit) \<times> world" where
  "submit_pairs trans' heap_s walltime_s mem_s vmem_s [] display_number w = (Inr (), w)"
| "submit_pairs trans' heap_s walltime_s mem_s vmem_s ((id', stacks) # rest) display_number w =
     (if length stacks = 1 then
        (case (if has_key stacks ''B'' then dict_get stacks ''B'' else dict_get stacks ''G'') of
           Inl e \<Rightarrow> (Inl e, w)
         | Inr file \<Rightarrow>
             submit_pairs trans' heap_s walltime_s mem_s vmem_s rest display_number
               (print (''Unable to match '' @ file @ '' with another stack.  Skipping...'') w))
      else
        (case multi_process_pair trans' heap_s walltime_s mem_s vmem_s id' stacks display_number w of
           (Inl e, w') \<Rightarrow> (Inl e, w')
         | (Inr _, w') \<Rightarrow>
             submit_pairs trans' heap_s walltime_s mem_s vmem_s rest (display_number + 1) w'))"

definition multi_main ::
  "string \<Rightarrow> int \<Rightarrow> int \<Rightarrow> string \<Rightarrow> string \<Rightarrow> world \<Rightarrow> (error + unit) \<times> world" where
  "multi_main walltime_s mem_gb vmem_gb trans' stack_dir w =
     (let w0 = print (nl @ ''MultiStackReg batch submission tool 0.1.0'' @ nl) w
      in case heap_size mem_gb of
           Inl e \<Rightarrow> (Inl e, w0)
         | Inr h \<Rightarrow>
             (let heap_s = str_int h;
                  w1 = print (''setting Fiji Java max heap to '' @ heap_s) w0;
                  mem_s = str_int mem_gb @ ''gb'';
                  vmem_s = str_int vmem_gb @ ''gb'';
                  w2 = print (''Processing image stacks in '' @ abspath w1 stack_dir @ nl) w1
              in case group_files (listdir w2 stack_dir) [] of
                   Inl e \<Rightarrow> (Inl e, w2)
                 | Inr pairs \<Rightarrow> submit_pairs trans' heap_s walltime_s mem_s vmem_s pairs 1000 w2))"

section \<open>Auxiliary notions for the proofs\<close>

text \<open>
  The count never falls below the number of attributes that hold a non-empty value: the
  invariant that every setter and the constructor maintain.
\<close>

definition count_ok :: "BatchJob \<Rightarrow> bool" where
  "count_ok j = (count_set j \<le> attribute_count j)"

text \<open>The entry one block of \<open>submit\<close> leaves in a blank slot, and whether the block runs.\<close>

definition written :: "string option \<times> attr_id \<times> string option \<Rightarrow> attropl" where
  "written t = (case t of (v, nm, res) \<Rightarrow> write_entry nm res (the v) blank_attropl)"

definition is_set :: "string option \<times> attr_id \<times> string option \<Rightarrow> bool" where
  "is_set t = truthy (fst t)"

text \<open>
  A concrete world for the examples: a complete environment, an empty temporary
  directory, a directory of three stacks, and a resource manager that accepts every job.
\<close>

definition example_world :: world where
  "example_world =
     \<lparr>environ = [''PATH'' \<mapsto> ''/usr/bin'', ''HOME'' \<mapsto> ''/home/user'', ''LOGNAME'' \<mapsto> ''user''],
      cwd = ''/work'',
      fqdn = ''login.cluster'',
      files = Map.empty,
      tmp_names = [''/tmp/tmpA.sh'', ''/tmp/tmpB.sh'', ''/tmp/tmpC.sh''],
      listdir = (\<lambda>_. [''K1_B.tif'', ''K1_G.tif'', ''K2_B.tif'']),
      abspath = (\<lambda>p. ''/work/'' @ p),
      pbs_reply = (\<lambda>n. (Some (str_int (int n) @ ''.cluster''), 0, [])),
      pbs_errno = (0, []),
      pbs_calls = [],
      printed = []\<rparr>"

section \<open>Basic facts\<close>

lemma bind_err_simps [simp]:
  "bind_err (Inl e) f = Inl e"
  "bind_err (Inr x) f = f x"
  by (simp_all add: bind_err_def)

lemma count_filter_Cons:
  "int (length (filter P (x # xs))) = of_bool (P x) + int (length (filter P xs))"
  by simp

lemma count_set_sum:
  "count_set j = of_bool (truthy (name j)) + of_bool (truthy (walltime j)) + of_bool (truthy (nodes j))
     + of_bool (truthy (stdout_path j)) + of_bool (truthy (stderr_path j))
     + of_bool (truthy (dependency_list j)) + of_bool (truthy (mail_options j))
     + of_bool (truthy (mem j)) + of_bool (truthy (vmem j))"
  unfolding count_set_def set_attributes_def
  by (simp only: count_filter_Cons) simp

lemma count_after_drift:
  "(of_bool (truthy new) :: int) - of_bool (truthy old) \<le> count_after old new c - c"
  by (simp add: count_after_def truthy_def split: option.splits)

lemma count_ok_set_name: "count_ok j \<Longrightarrow> count_ok (set_name v j)"
  using count_after_drift [of v "name j" "attribute_count j"]
  by (simp add: count_ok_def count_set_sum set_name_def)

lemma count_ok_set_walltime: "count_ok j \<Longrightarrow> count_ok (set_walltime v j)"
  using count_after_drift [of v "walltime j" "attribute_count j"]
  by (simp add: count_ok_def count_set_sum set_walltime_def)

lemma count_ok_set_nodes: "count_ok j \<Longrightarrow> count_ok (set_nodes v j)"
  using count_after_drift [of v "nodes j" "attribute_count j"]
  by (simp add: count_ok_def count_set_sum set_nodes_def)

lemma count_ok_set_stderr_path: "count_ok j \<Longrightarrow> count_ok (set_stderr_path v j)"
  using count_after_drift [of v "stderr_path j" "attribute_count j"]
  by (simp add: count_ok_def count_set_sum set_stderr_path_def)

lemma count_ok_set_stdout_path: "count_ok j \<Longrightarrow> count_ok (set_stdout_path v j)"
  using count_after_drift [of v "stdout_path j" "attribute_count j"]
  by (simp add: count_ok_def count_set_sum set_stdout_path_def)

lemma count_ok_set_dependency_list: "count_ok j \<Longrightarrow> count_ok (set_dependency_list v j)"
  using count_after_drift [of v "dependency_list j" "attribute_count j"]
  by (simp add: count_ok_def count_set_sum set_dependency_list_def)

lemma count_ok_set_mail_options: "count_ok j \<Longrightarrow> count_ok (set_mail_options v j)"
  using count_after_drift [of v "mail_options j" "attribute_count j"]
  by (simp add: count_ok_def count_set_sum set_mail_options_def)

lemma count_ok_set_mem: "count_ok j \<Longrightarrow> count_ok (set_mem v j)"
  using count_after_drift [of v "mem j" "attribute_count j"]
  by (simp add: count_ok_def count_set_sum set_mem_def)

lemma count_ok_set_vmem: "count_ok j \<Longrightarrow> count_ok (set_vmem v j)"
  using count_after_drift [of v "vmem j" "attribute_count j"]
  by (simp add: count_ok_def count_set_sum set_vmem_def)

lemma count_ok_set_workdir: "count_ok j \<Longrightarrow> count_ok (set_workdir d v j)"
  by (simp add: count_ok_def count_set_sum set_workdir_def)

lemma count_ok_job_script: "count_ok j \<Longrightarrow> count_ok (j\<lparr>job_script := s\<rparr>)"
  by (simp add: count_ok_def count_set_sum)

lemma count_ok_job_id: "count_ok j \<Longrightarrow> count_ok (j\<lparr>job_id := i\<rparr>)"
  by (simp add: count_ok_def count_set_sum)

lemmas count_ok_intros = count_ok_set_name count_ok_set_walltime count_ok_set_nodes
  count_ok_set_stderr_path count_ok_set_stdout_path count_ok_set_dependency_list
  count_ok_set_mail_options count_ok_set_mem count_ok_set_vmem count_ok_set_workdir
  count_ok_job_script count_ok_job_id

lemma count_ok_setter: "count_ok j \<Longrightarrow> count_ok (apply_setter d s j)"
  by (cases s) (simp_all add: count_ok_intros)

lemma count_ok_setters: "count_ok j \<Longrightarrow> count_ok (apply_setters d ops j)"
  unfolding apply_setters_def
  by (induction ops arbitrary: j) (simp_all add: count_ok_setter)

lemma count_ok_blank: "count_ok blank_job"
  by (simp add: count_ok_def count_set_sum blank_job_def truthy_def)

lemma count_ok_init: "count_ok (BatchJob_init d script a)"
  unfolding BatchJob_init_def
  by (intro count_ok_intros count_ok_blank)

lemma is_set_simp [simp]: "is_set (v, nm, res) = truthy v"
  by (simp add: is_set_def)

lemma add_attr_blank:
  "add_attr (nm, res, v) (pre @ blank_attropl # replicate m blank_attropl, length pre)
     = Inr (pre @ write_entry nm res v blank_attropl # replicate m blank_attropl, Suc (length pre))"
  by (simp add: add_attr_def nth_append list_update_append)

lemma add_attr_full:
  "add_attr t (pre, length pre) = Inl IndexError"
  by (cases t) (simp add: add_attr_def)

lemma add_all_blank:
  "length (filter is_set ts) \<le> m \<Longrightarrow>
   add_all ts (pre @ replicate m blank_attropl, length pre)
     = Inr (pre @ map written (filter is_set ts) @ replicate (m - length (filter is_set ts)) blank_attropl,
            length pre + length (filter is_set ts))"
proof (induction ts arbitrary: pre m)
  case Nil
  then show ?case by simp
next
  case (Cons t ts)
  obtain v nm res where t: "t = (v, nm, res)" by (cases t)
  show ?case
  proof (cases "truthy v")
    case False
    with Cons t show ?thesis by (simp add: add_if_def)
  next
    case True
    with Cons.prems t obtain m' where m: "m = Suc m'" and le: "length (filter is_set ts) \<le> m'"
      by (cases m) simp_all
    have "add_if t (pre @ replicate m blank_attropl, length pre)
            = Inr (pre @ written t # replicate m' blank_attropl, Suc (length pre))"
      using True t m by (simp add: add_if_def add_attr_blank written_def)
    then show ?thesis
      using Cons.IH [OF le, of "pre @ [written t]"] True t m
      by simp
  qed
qed

lemma count_set_optional: "count_set j = int (length (filter is_set (optional_attrs j)))"
  unfolding count_set_sum optional_attrs_def
  by (simp only: count_filter_Cons is_set_simp) simp

lemma generate_env_cases:
  "(\<exists>k. k \<in> {''PATH'', ''HOME'', ''LOGNAME''} \<and> environ w k = None \<and> generate_env j w = Inl (KeyError k))
   \<or> (\<exists>env. generate_env j w = Inr env \<and> environ w ''PATH'' \<noteq> None \<and> environ w ''HOME'' \<noteq> None
          \<and> environ w ''LOGNAME'' \<noteq> None)"
  by (auto simp add: generate_env_def environ_get_def Let_def split: option.splits)

lemma build_attropl_ok:
  assumes ok: "count_ok j" and env: "generate_env j w = Inr env"
  shows "build_attropl j w =
     Inr (write_entry ATTR_v None env blank_attropl # map written (filter is_set (optional_attrs j))
            @ replicate (nat (attribute_count j) - length (filter is_set (optional_attrs j))) blank_attropl,
          Suc (length (filter is_set (optional_attrs j))))"
proof -
  let ?k = "length (filter is_set (optional_attrs j))"
  from ok have le: "int ?k \<le> attribute_count j"
    by (simp add: count_ok_def count_set_optional)
  define m where "m = nat (attribute_count j)"
  from le have m: "attribute_count j = int m" and km: "?k \<le> m"
    by (simp_all add: m_def)
  have new: "new_attropl (attribute_count j + 1) = blank_attropl # replicate m blank_attropl"
    using m by (simp add: new_attropl_def nat_add_distrib)
  have first: "add_attr (ATTR_v, None, env) (blank_attropl # replicate m blank_attropl, 0)
      = Inr (write_entry ATTR_v None env blank_attropl # replicate m blank_attropl, Suc 0)"
    using add_attr_blank [of ATTR_v None env "[]" m] by simp
  have rest: "add_all (optional_attrs j) (write_entry ATTR_v None env blank_attropl # replicate m blank_attropl,
                Suc 0)
      = Inr (write_entry ATTR_v None env blank_attropl # map written (filter is_set (optional_attrs j))
               @ replicate (m - ?k) blank_attropl,
             Suc ?k)"
    using add_all_blank [OF km, of "[write_entry ATTR_v None env blank_attropl]"] by simp
  show ?thesis
    unfolding build_attropl_def Let_def new
    using first rest env m by simp
qed

lemma build_attropl_cases:
  assumes ok: "count_ok j"
  shows "(\<exists>k. k \<in> {''PATH'', ''HOME'', ''LOGNAME''} \<and> environ w k = None \<and> build_attropl j w = Inl (KeyError k))
   \<or> (\<exists>xs idx. build_attropl j w = Inr (xs, idx) \<and> int (length xs) = attribute_count j + 1
          \<and> int idx = count_set j + 1 \<and> idx \<le> length xs)"
proof -
  from ok have le: "int (length (filter is_set (optional_attrs j))) \<le> attribute_count j"
    by (simp add: count_ok_def count_set_optional)
  then have pos: "0 < nat (attribute_count j + 1)" by simp
  from generate_env_cases [of w j] show ?thesis
  proof (elim disjE exE conjE)
    fix k assume "k \<in> {''PATH'', ''HOME'', ''LOGNAME''}" "environ w k = None" "generate_env j w = Inl (KeyError k)"
    then show ?thesis
      using pos by (auto simp add: build_attropl_def Let_def new_attropl_def)
  next
    fix env assume "generate_env j w = Inr env"
    from build_attropl_ok [OF ok this] le show ?thesis
      by (auto simp add: count_set_optional)
  qed
qed

lemma generate_env_ok:
  assumes "environ w ''PATH'' \<noteq> None" "environ w ''HOME'' \<noteq> None" "environ w ''LOGNAME'' \<noteq> None"
  shows "\<exists>env. generate_env j w = Inr env"
  using assms generate_env_cases [of w j] by auto


section \<open>The count of set attributes (C1)\<close>

text \<open>
  C1: after every sequence of assignments to the optional attributes, \<open>attribute_count\<close>
  should equal the number of optional attributes whose value is non-empty, and assigning
  the empty string to a set attribute should lower the count by one. The setters lower the
  count only when the new value \<open>is None\<close>: a job constructed with the name \<open>a\<close> keeps
  the count 1 when its name is assigned the empty string, although no attribute is set
  any more, and assigning \<open>b\<close> afterwards raises the count to 2 with one attribute set.
\<close>

theorem attribute_count_drifts:
  "attribute_count (set_name (Some []) (BatchJob_init ''/work'' ''job.sh'' (no_args\<lparr>arg_name := Some ''a''\<rparr>))) = 1
   \<and> count_set (set_name (Some []) (BatchJob_init ''/work'' ''job.sh'' (no_args\<lparr>arg_name := Some ''a''\<rparr>))) = 0
   \<and> attribute_count (set_name (Some ''b'') (set_name (Some [])
        (BatchJob_init ''/work'' ''job.sh'' (no_args\<lparr>arg_name := Some ''a''\<rparr>)))) = 2
   \<and> count_set (set_name (Some ''b'') (set_name (Some [])
        (BatchJob_init ''/work'' ''job.sh'' (no_args\<lparr>arg_name := Some ''a''\<rparr>)))) = 1"
  by (simp add: count_set_sum BatchJob_init_def set_name_def set_walltime_def set_nodes_def
      set_stdout_path_def set_stderr_path_def set_workdir_def set_mail_options_def
      set_dependency_list_def set_mem_def set_vmem_def count_after_def truthy_def blank_job_def
      no_args_def)


section \<open>The capacity of the attribute list (C2)\<close>

text \<open>
  C2: for every job reached from the constructor by any sequence of assignments, \<open>submit\<close>
  allocates \<open>attribute_count + 1\<close> entries and its write index ends at one plus the number
  of non-empty optional attributes, which is within the capacity. Filling the list never
  raises \<open>IndexError\<close>: it either stops on an environment variable that is missing (see
  C6) or returns the list.
\<close>

theorem attropl_within_capacity:
  "(\<exists>k. k \<in> {''PATH'', ''HOME'', ''LOGNAME''} \<and> environ w k = None
        \<and> build_attropl (apply_setters d ops (BatchJob_init d script a)) w = Inl (KeyError k))
   \<or> (\<exists>xs idx. build_attropl (apply_setters d ops (BatchJob_init d script a)) w = Inr (xs, idx)
        \<and> int (length xs) = attribute_count (apply_setters d ops (BatchJob_init d script a)) + 1
        \<and> int idx = count_set (apply_setters d ops (BatchJob_init d script a)) + 1
        \<and> idx \<le> length xs)"
  by (rule build_attropl_cases) (intro count_ok_setters count_ok_init)

theorem attropl_within_capacity_witness:
  "\<exists>xs idx. build_attropl (apply_setters ''/work'' [SetName (Some []), SetMem (Some ''14gb'')]
       (BatchJob_init ''/work'' ''job.sh'' (no_args\<lparr>arg_name := Some ''a''\<rparr>))) example_world = Inr (xs, idx)
     \<and> int (length xs) = attribute_count (apply_setters ''/work'' [SetName (Some []), SetMem (Some ''14gb'')]
       (BatchJob_init ''/work'' ''job.sh'' (no_args\<lparr>arg_name := Some ''a''\<rparr>))) + 1
     \<and> idx \<le> length xs"
proof -
  have "environ example_world k \<noteq> None" if "k \<in> {''PATH'', ''HOME'', ''LOGNAME''}" for k
    using that by (auto simp add: example_world_def)
  then show ?thesis
    using attropl_within_capacity [of example_world "''/work''" "[SetName (Some []), SetMem (Some ''14gb'')]"
        "''job.sh''" "no_args\<lparr>arg_name := Some ''a''\<rparr>"]
    by blast
qed


section \<open>The attribute name of the standard-error path (C8)\<close>

lemma written_name: "attr_name (written (v, nm, res)) = Some nm"
  by (simp add: written_def write_entry_def)

lemma optional_attrs_split:
  "optional_attrs j = [(name j, ATTR_N, None), (walltime j, ATTR_l, Some ''walltime''),
       (nodes j, ATTR_l, Some ''nodes'')]
     @ [(stdout_path j, ATTR_o, None), (stderr_path j, ATTR_o, None)]
     @ [(dependency_list j, ATTR_depend, None), (mail_options j, ATTR_m, None),
        (mem j, ATTR_l, Some ''mem''), (vmem j, ATTR_l, Some ''vmem'')]"
  by (simp add: optional_attrs_def)

lemma optional_attrs_no_ATTR_e: "t \<in> set (optional_attrs j) \<Longrightarrow> attr_name (written t) \<noteq> Some ATTR_e"
  by (auto simp add: optional_attrs_def written_name)

lemma stderr_under_ATTR_o:
  assumes ok: "count_ok j" and env: "generate_env j w = Inr env"
    and out: "truthy (stdout_path j)" and err: "truthy (stderr_path j)"
  shows "\<exists>pre post idx. build_attropl j w =
           Inr (pre @ [\<lparr>attr_name = Some ATTR_o, attr_resource = None, attr_value = stdout_path j\<rparr>,
                       \<lparr>attr_name = Some ATTR_o, attr_resource = None, attr_value = stderr_path j\<rparr>] @ post, idx)
         \<and> (\<forall>e \<in> set (pre @ post). attr_name e \<noteq> Some ATTR_e)"
proof -
  let ?a = "[(name j, ATTR_N, None), (walltime j, ATTR_l, Some ''walltime''), (nodes j, ATTR_l, Some ''nodes'')]"
  let ?b = "[(dependency_list j, ATTR_depend, None), (mail_options j, ATTR_m, None),
        (mem j, ATTR_l, Some ''mem''), (vmem j, ATTR_l, Some ''vmem'')]"
  let ?pre = "write_entry ATTR_v None env blank_attropl # map written (filter is_set ?a)"
  let ?post = "map written (filter is_set ?b)
       @ replicate (nat (attribute_count j) - length (filter is_set (optional_attrs j))) blank_attropl"
  from out obtain so where so: "stdout_path j = Some so" by (cases "stdout_path j") (simp_all add: truthy_def)
  from err obtain se where se: "stderr_path j = Some se" by (cases "stderr_path j") (simp_all add: truthy_def)
  have mid: "map written (filter is_set [(stdout_path j, ATTR_o, None), (stderr_path j, ATTR_o, None)])
     = [\<lparr>attr_name = Some ATTR_o, attr_resource = None, attr_value = stdout_path j\<rparr>,
        \<lparr>attr_name = Some ATTR_o, attr_resource = None, attr_value = stderr_path j\<rparr>]"
    using out err so se by (simp add: written_def write_entry_def blank_attropl_def)
  have split: "map written (filter is_set (optional_attrs j))
      = map written (filter is_set ?a)
        @ map written (filter is_set [(stdout_path j, ATTR_o, None), (stderr_path j, ATTR_o, None)])
        @ map written (filter is_set ?b)"
    by (simp only: optional_attrs_split filter_append map_append)
  have built: "build_attropl j w =
      Inr (?pre @ [\<lparr>attr_name = Some ATTR_o, attr_resource = None, attr_value = stdout_path j\<rparr>,
                   \<lparr>attr_name = Some ATTR_o, attr_resource = None, attr_value = stderr_path j\<rparr>] @ ?post,
           Suc (length (filter is_set (optional_attrs j))))"
    unfolding build_attropl_ok [OF ok env] split mid by simp
  have names: "\<forall>e \<in> set (?pre @ ?post). attr_name e \<noteq> Some ATTR_e"
    by (auto simp add: write_entry_def blank_attropl_def written_name)
  from built names show ?thesis by blast
qed

text \<open>
  C8: when both the standard-output path and the standard-error path of a job are set,
  \<open>submit\<close> writes the standard-error path in the entry right after the standard-output
  path, under the same attribute name \<open>ATTR_o\<close>, and no entry of the list carries
  \<open>ATTR_e\<close>. (The environment is taken to hold \<open>PATH\<close>, \<open>HOME\<close> and \<open>LOGNAME\<close>, without
  which \<open>submit\<close> raises before the list is filled.)
\<close>

theorem stderr_written_under_stdout_name:
  assumes "environ w ''PATH'' \<noteq> None" "environ w ''HOME'' \<noteq> None" "environ w ''LOGNAME'' \<noteq> None"
    and "truthy (stdout_path (apply_setters d ops (BatchJob_init d script a)))"
    and "truthy (stderr_path (apply_setters d ops (BatchJob_init d script a)))"
  shows "\<exists>pre post idx. build_attropl (apply_setters d ops (BatchJob_init d script a)) w =
           Inr (pre @ [\<lparr>attr_name = Some ATTR_o, attr_resource = None,
                         attr_value = stdout_path (apply_setters d ops (BatchJob_init d script a))\<rparr>,
                       \<lparr>attr_name = Some ATTR_o, attr_resource = None,
                         attr_value = stderr_path (apply_setters d ops (BatchJob_init d script a))\<rparr>]
                  @ post, idx)
         \<and> (\<forall>e \<in> set (pre @ post). attr_name e \<noteq> Some ATTR_e)"
proof -
  have ok: "count_ok (apply_setters d ops (BatchJob_init d script a))"
    by (intro count_ok_setters count_ok_init)
  from generate_env_ok [OF assms(1-3)] obtain env
    where env: "generate_env (apply_setters d ops (BatchJob_init d script a)) w = Inr env"
    by blast
  show ?thesis
    by (rule stderr_under_ATTR_o [OF ok env assms(4) assms(5)])
qed

theorem stderr_written_under_stdout_name_witness:
  "\<exists>pre post idx. build_attropl (apply_setters ''/work'' [SetStderrPath (Some ''job.err'')]
       (BatchJob_init ''/work'' ''job.sh'' (no_args\<lparr>arg_stdout := Some ''job.out''\<rparr>))) example_world =
     Inr (pre @ [\<lparr>attr_name = Some ATTR_o, attr_resource = None, attr_value = Some ''job.out''\<rparr>,
                 \<lparr>attr_name = Some ATTR_o, attr_resource = None, attr_value = Some ''job.err''\<rparr>]
            @ post, idx)
     \<and> (\<forall>e \<in> set (pre @ post). attr_name e \<noteq> Some ATTR_e)"
proof -
  have j: "stdout_path (apply_setters ''/work'' [SetStderrPath (Some ''job.err'')]
       (BatchJob_init ''/work'' ''job.sh'' (no_args\<lparr>arg_stdout := Some ''job.out''\<rparr>))) = Some ''job.out''"
    "stderr_path (apply_setters ''/work'' [SetStderrPath (Some ''job.err'')]
       (BatchJob_init ''/work'' ''job.sh'' (no_args\<lparr>arg_stdout := Some ''job.out''\<rparr>))) = Some ''job.err''"
    by (simp_all add: apply_setters_def BatchJob_init_def set_name_def set_walltime_def set_nodes_def
      set_stdout_path_def set_stderr_path_def set_workdir_def set_mail_options_def
      set_dependency_list_def set_mem_def set_vmem_def no_args_def)
  have e: "environ example_world ''PATH'' \<noteq> None" "environ example_world ''HOME'' \<noteq> None"
    "environ example_world ''LOGNAME'' \<noteq> None"
    by (simp_all add: example_world_def)
  show ?thesis
    using stderr_written_under_stdout_name [OF e, of "''/work''" "[SetStderrPath (Some ''job.err'')]"
        "''job.sh''" "no_args\<lparr>arg_stdout := Some ''job.out''\<rparr>"]
    by (simp add: j truthy_def)
qed

end
